theory Spec2Isabelle
  imports Complex_Main "HOL-Library.Product_Lexorder" "HOL-Library.Sublist"
begin

section \<open>Farmer task manager (src/farmer_tasks/task_manager.py)\<close>

text \<open>
  Modelling conventions.
  \<^item> A \<open>datetime\<close> is an \<open>int\<close>: microseconds on the naive local time line. The source
    stores datetimes as ISO-8601 text and lets SQLite order them as text; for the
    4-digit years of \<open>datetime\<close> that order is the chronological one.
  \<^item> A \<open>timedelta\<close> is an \<open>int\<close> number of microseconds.
  \<^item> A Python \<open>float\<close> (costs, confidences, measurements) is a \<open>real\<close>: rounding is not
    modelled.
  \<^item> \<open>datetime.now()\<close> and \<open>uuid.uuid4()\<close> are inputs: every reading of the clock and every
    fresh identifier is a parameter of the function that asks for it.
  \<^item> The database file is the record of its committed tables: \<open>farmer_tasks\<close> as the
    list of its rows in insertion order, \<open>task_history\<close> as the list of the pairs
    (task id, action) logged.
  \<^item> Every function that can raise returns a pair: its outcome (\<open>Inl\<close> the exception,
    \<open>Inr\<close> the returned value) and the database as it is afterwards.
\<close>

datatype TaskPriority = LOW | MEDIUM | HIGH | URGENT

datatype TaskStatus = PENDING | IN_PROGRESS | COMPLETED | OVERDUE | CANCELLED

datatype TaskCategory =
    IRRIGATION | FERTILIZATION | PEST_CONTROL | HARVESTING | PLANTING
  | MONITORING | EQUIPMENT | WEATHER_ALERT | MARKET | COMPLIANCE

text \<open>
  The dataclass \<open>FarmerTask\<close>. The field \<open>id\<close> is called \<open>task_id\<close> here. The free-text
  fields \<open>title\<close> and \<open>description\<close> and the fields no function of the source ever sets
  (\<open>reminder_sent\<close>, \<open>coordinates\<close>, \<open>labor_hours\<close>, \<open>optimal_conditions\<close>, \<open>depends_on\<close>,
  \<open>blocks\<close>) are not part of the record.
\<close>

record FarmerTask =
  task_id :: string
  category :: TaskCategory
  priority :: TaskPriority
  status :: TaskStatus
  field_id :: string
  created_at :: int
  due_date :: int
  estimated_duration :: int
  cost_estimate :: real
  auto_generated :: bool
  ai_confidence :: real
  completion_notes :: "string option"
  completed_at :: "int option"
  zone_id :: "string option"
  area_hectares :: "real option"
  equipment_needed :: "string list"
  materials_needed :: "string list"
  weather_dependent :: bool
  risk_factors :: "string list"

record database =
  farmer_tasks :: "FarmerTask list"
  task_history :: "(string \<times> string) list"

datatype error = IntegrityError | KeyError | OperationalError

definition timedelta_days :: "int \<Rightarrow> int" where
  "timedelta_days d = d * 86400000000"

definition timedelta_hours :: "int \<Rightarrow> int" where
  "timedelta_hours h = h * 3600000000"

definition timedelta_minutes :: "int \<Rightarrow> int" where
  "timedelta_minutes m = m * 60000000"

text \<open>
  SQLite admits one writing connection at a time. With the default settings of
  Python's \<open>sqlite3\<close>, the first INSERT or UPDATE that a connection executes opens a
  transaction, which holds the write lock of the database file until \<open>commit\<close>; a
  write attempted by another connection in that time waits for the busy timeout and
  then fails with \<open>sqlite3.OperationalError\<close> (database is locked).

  \<open>_log_task_action\<close> opens a connection of its own, inserts one row into
  \<open>task_history\<close> and commits. \<open>write_locked\<close> says whether, at the time of the call,
  another connection holds the write lock.
\<close>

definition log_task_action :: "bool \<Rightarrow> string \<Rightarrow> string \<Rightarrow> database \<Rightarrow> error + database" where
  "log_task_action write_locked tid action db =
     (if write_locked then Inl OperationalError
      else Inr (db\<lparr>task_history := task_history db @ [(tid, action)]\<rparr>))"

text \<open>
  \<open>create_task\<close>: the INSERT is executed on the connection of \<open>create_task\<close>; the column
  \<open>id\<close> is the primary key, so a row with an id already present raises
  \<open>sqlite3.IntegrityError\<close>. Then, before \<open>conn.commit()\<close>, \<open>_log_task_action\<close> is
  called, while the connection of \<open>create_task\<close> holds the write lock. An exception
  is not caught: the commit is not reached and the inserted row is discarded with the
  connection.
\<close>

definition create_task :: "FarmerTask \<Rightarrow> database \<Rightarrow> (error + string) \<times> database" where
  "create_task task db =
     (if task_id task \<in> set (map task_id (farmer_tasks db)) then (Inl IntegrityError, db)
      else
        (case log_task_action True (task_id task) ''created'' db of
           Inl e \<Rightarrow> (Inl e, db)
         | Inr db' \<Rightarrow>
             (Inr (task_id task), db'\<lparr>farmer_tasks := farmer_tasks db' @ [task]\<rparr>)))"

text \<open>
  A filter argument of \<open>get_tasks_for_farmer\<close>: \<open>None\<close> and the empty list are both falsy
  in \<open>if status_filter:\<close>, and then no condition is added to the query.
\<close>

definition in_filter :: "'a list option \<Rightarrow> 'a \<Rightarrow> bool" where
  "in_filter f x = (case f of None \<Rightarrow> True | Some vs \<Rightarrow> vs = [] \<or> x \<in> set vs)"

text \<open>
  The enum values are the strings "low", "medium", "high", "urgent"; as text they are
  ordered \<open>high < low < medium < urgent\<close>. \<open>priority_value_rank\<close> is the position of a
  priority's value in that order.
\<close>

fun priority_value_rank :: "TaskPriority \<Rightarrow> int" where
  "priority_value_rank HIGH = 0"
| "priority_value_rank LOW = 1"
| "priority_value_rank MEDIUM = 2"
| "priority_value_rank URGENT = 3"

text \<open>
  \<open>ORDER BY due_date ASC, priority DESC\<close>: the sort key of a row. Rows with equal keys
  are kept in insertion order.
\<close>

definition order_by_key :: "FarmerTask \<Rightarrow> int \<times> int" where
  "order_by_key t = (due_date t, - priority_value_rank (priority t))"

text \<open>\<open>get_tasks_for_farmer\<close>: one SELECT; it reads the committed rows and writes nothing.\<close>

definition get_tasks_for_farmer ::
  "string list \<Rightarrow> TaskStatus list option \<Rightarrow> TaskCategory list option \<Rightarrow>
   TaskPriority list option \<Rightarrow> database \<Rightarrow> FarmerTask list" where
  "get_tasks_for_farmer field_ids status_filter category_filter priority_filter db =
     sort_key order_by_key
       (filter (\<lambda>t. field_id t \<in> set field_ids
                   \<and> in_filter status_filter (status t)
                   \<and> in_filter category_filter (category t)
                   \<and> in_filter priority_filter (priority t)) (farmer_tasks db))"

text \<open>
  \<open>update_task_status\<close>: one UPDATE on the row with the given id, executed on the
  connection of \<open>update_task_status\<close>: \<open>completed_at\<close> is stamped when the new status is
  COMPLETED, \<open>completion_notes\<close> is written when the argument is truthy (a non-empty
  string); the current status of the row is not read. Then, before \<open>conn.commit()\<close>,
  \<open>_log_task_action\<close> is called, while the connection of \<open>update_task_status\<close> holds
  the write lock. An exception is not caught: the commit is not reached and the UPDATE
  is discarded with the connection. The value returned is \<open>cursor.rowcount > 0\<close>.
\<close>

definition update_row :: "TaskStatus \<Rightarrow> string option \<Rightarrow> int \<Rightarrow> FarmerTask \<Rightarrow> FarmerTask" where
  "update_row new_status notes now t =
     (let t1 = t\<lparr>status := new_status\<rparr>;
          t2 = (if new_status = COMPLETED then t1\<lparr>completed_at := Some now\<rparr> else t1)
      in (case notes of
            None \<Rightarrow> t2
          | Some n \<Rightarrow> if n = [] then t2 else t2\<lparr>completion_notes := Some n\<rparr>))"

definition update_task_status ::
  "string \<Rightarrow> TaskStatus \<Rightarrow> string option \<Rightarrow> int \<Rightarrow> database \<Rightarrow> (error + bool) \<times> database" where
  "update_task_status tid new_status notes now db =
     (case log_task_action True tid ''status_changed'' db of
        Inl e \<Rightarrow> (Inl e, db)
      | Inr db' \<Rightarrow>
          (Inr (list_ex (\<lambda>t. task_id t = tid) (farmer_tasks db')),
           db'\<lparr>farmer_tasks :=
                 map (\<lambda>t. if task_id t = tid then update_row new_status notes now t else t)
                   (farmer_tasks db')\<rparr>))"

text \<open>
  \<open>get_overdue_tasks\<close>: the loop over the fetched pending and in-progress tasks. For
  each task whose due date is before \<open>now\<close>, \<open>update_task_status\<close> is called; when it
  returns, the status is set on the fetched object, which is appended to the result.
  An exception of \<open>update_task_status\<close> is not caught and ends the call.
\<close>

fun overdue_loop ::
  "int \<Rightarrow> FarmerTask list \<Rightarrow> FarmerTask list \<Rightarrow> database \<Rightarrow>
   (error + FarmerTask list) \<times> database" where
  "overdue_loop now [] overdue_tasks db = (Inr overdue_tasks, db)"
| "overdue_loop now (task # tasks) overdue_tasks db =
     (if due_date task < now then
        (case update_task_status (task_id task) OVERDUE None now db of
           (Inl e, db') \<Rightarrow> (Inl e, db')
         | (Inr success, db') \<Rightarrow>
             overdue_loop now tasks (overdue_tasks @ [task\<lparr>status := OVERDUE\<rparr>]) db')
      else overdue_loop now tasks overdue_tasks db)"

definition get_overdue_tasks ::
  "string list \<Rightarrow> int \<Rightarrow> database \<Rightarrow> (error + FarmerTask list) \<times> database" where
  "get_overdue_tasks field_ids now db =
     overdue_loop now
       (get_tasks_for_farmer field_ids (Some [PENDING, IN_PROGRESS]) None None db) [] db"

text \<open>
  \<open>get_upcoming_tasks\<close>: fetches the pending and in-progress tasks, keeps those due up to
  \<open>now + days_ahead\<close> and sorts them by \<open>(due_date, priority.value)\<close>. It executes no
  UPDATE and calls nothing that writes; the database is returned as it was, to make
  that visible.
\<close>

definition get_upcoming_tasks ::
  "string list \<Rightarrow> int \<Rightarrow> int \<Rightarrow> database \<Rightarrow> FarmerTask list \<times> database" where
  "get_upcoming_tasks field_ids days_ahead now db =
     (let tasks = get_tasks_for_farmer field_ids (Some [PENDING, IN_PROGRESS]) None None db;
          cutoff_date = now + timedelta_days days_ahead;
          upcoming_tasks = filter (\<lambda>task. due_date task \<le> cutoff_date) tasks
      in (sort_key (\<lambda>t. (due_date t, priority_value_rank (priority t))) upcoming_tasks, db))"


definition example_task :: FarmerTask where
  "example_task =
     \<lparr> task_id = ''t1'', category = IRRIGATION, priority = MEDIUM, status = PENDING,
       field_id = ''field_001'', created_at = 0, due_date = 100, estimated_duration = 90,
       cost_estimate = 0, auto_generated = False, ai_confidence = 1,
       completion_notes = None, completed_at = None, zone_id = None,
       area_hectares = None, equipment_needed = [], materials_needed = [],
       weather_dependent = False, risk_factors = [] \<rparr>"

subsection \<open>Tasks from recommendation actions\<close>

text \<open>
  The dictionaries read by \<open>generate_ai_tasks_from_recommendations\<close>. A key that may be
  absent is an \<open>option\<close>: \<open>d.get(k, default)\<close> is a case distinction, \<open>d[k]\<close> on an
  absent key raises \<open>KeyError\<close>.
\<close>

record action_dict =
  a_type :: "string option"
  a_priority :: "string option"
  a_timing :: "string option"
  a_cost :: "real option"
  a_rate :: "string option"

record zone_dict =
  z_zone_id :: "string option"
  z_area_ha :: "real option"
  z_actions :: "action_dict list option"

definition dict_get :: "'a option \<Rightarrow> 'a \<Rightarrow> 'a" where
  "dict_get v dflt = (case v of None \<Rightarrow> dflt | Some x \<Rightarrow> x)"

definition category_mapping :: "string \<Rightarrow> TaskCategory option" where
  "category_mapping k =
     (if k = ''irrigation'' then Some IRRIGATION
      else if k = ''fertilization'' then Some FERTILIZATION
      else if k = ''pest_control'' then Some PEST_CONTROL
      else if k = ''monitoring'' then Some MONITORING
      else None)"

definition priority_mapping :: "string \<Rightarrow> TaskPriority option" where
  "priority_mapping k =
     (if k = ''low'' then Some LOW
      else if k = ''medium'' then Some MEDIUM
      else if k = ''high'' then Some HIGH
      else if k = ''urgent'' then Some URGENT
      else None)"

definition timing_days :: "string \<Rightarrow> int option" where
  "timing_days k =
     (if k = ''immediate'' then Some 1
      else if k = ''within_week'' then Some 3
      else if k = ''within_month'' then Some 14
      else None)"

definition extract_equipment_from_action :: "action_dict \<Rightarrow> string list" where
  "extract_equipment_from_action action =
     (let action_type = dict_get (a_type action) [] in
      if action_type = ''irrigation'' then [''irrigation_system'', ''water_pump'']
      else if action_type = ''fertilization'' then [''spreader'', ''tractor'']
      else if action_type = ''pest_control'' then [''sprayer'', ''protective_equipment'']
      else [])"

text \<open>\<open>needle in haystack\<close> on strings; \<open>str.lower\<close> on ASCII letters.\<close>

fun str_contains :: "string \<Rightarrow> string \<Rightarrow> bool" where
  "str_contains needle [] = (needle = [])"
| "str_contains needle (c # cs) = (prefix needle (c # cs) \<or> str_contains needle cs)"

definition lower_char :: "char \<Rightarrow> char" where
  "lower_char c =
     (let n = (of_char c :: nat) in if 65 \<le> n \<and> n \<le> 90 then char_of (n + 32) else c)"

definition str_lower :: "string \<Rightarrow> string" where
  "str_lower s = map lower_char s"

definition extract_materials_from_action :: "action_dict \<Rightarrow> string list" where
  "extract_materials_from_action action =
     (let action_type = dict_get (a_type action) [];
          rate = dict_get (a_rate action) [];
          materials1 = (if str_contains ''fertilizer'' action_type
                           \<or> str_contains ''nitrogen'' (str_lower rate)
                        then [''nitrogen_fertilizer''] else []);
          materials2 = (if str_contains ''pesticide'' action_type
                           \<or> str_contains ''spray'' (str_lower rate)
                        then materials1 @ [''pesticide''] else materials1)
      in materials2)"

text \<open>
  \<open>_create_task_from_action\<close>. The constructor call evaluates \<open>uuid.uuid4()\<close>, then
  \<open>datetime.now()\<close> for \<open>created_at\<close>, then \<open>datetime.now()\<close> again for \<open>due_date\<close>:
  \<open>uid\<close>, \<open>now_created\<close> and \<open>now_due\<close> are these three values.
\<close>

definition create_task_from_action ::
  "string \<Rightarrow> string \<Rightarrow> zone_dict \<Rightarrow> action_dict \<Rightarrow> string \<Rightarrow> int \<Rightarrow> int \<Rightarrow> FarmerTask" where
  "create_task_from_action fid zid zone_data action uid now_created now_due =
     (let days_ahead = dict_get (timing_days (dict_get (a_timing action) ''within_week'')) 3
      in \<lparr> task_id = uid,
           category = dict_get (category_mapping (dict_get (a_type action) ''monitoring'')) MONITORING,
           priority = dict_get (priority_mapping (dict_get (a_priority action) ''medium'')) MEDIUM,
           status = PENDING,
           field_id = fid,
           created_at = now_created,
           due_date = now_due + timedelta_days days_ahead,
           estimated_duration = 90,
           cost_estimate = dict_get (a_cost action) 0,
           auto_generated = True,
           ai_confidence = 88 / 100,
           completion_notes = None,
           completed_at = None,
           zone_id = Some zid,
           area_hectares = Some (dict_get (z_area_ha zone_data) 0),
           equipment_needed = extract_equipment_from_action action,
           materials_needed = extract_materials_from_action action,
           weather_dependent = False,
           risk_factors = [] \<rparr>)"

text \<open>
  \<open>generate_ai_tasks_from_recommendations\<close>. \<open>env n\<close> is the triple (uuid, clock reading
  for \<open>created_at\<close>, clock reading for \<open>due_date\<close>) that the \<open>n\<close>-th task construction of
  the call obtains; the loops thread the number of tasks built so far. An exception
  of \<open>create_task\<close> or a missing \<open>zone_id\<close> ends the call.
\<close>

type_synonym task_env = "nat \<Rightarrow> string \<times> int \<times> int"

fun actions_loop ::
  "string \<Rightarrow> string \<Rightarrow> zone_dict \<Rightarrow> action_dict list \<Rightarrow> task_env \<Rightarrow> nat \<Rightarrow> string list \<Rightarrow>
   database \<Rightarrow> (error + string list \<times> nat) \<times> database" where
  "actions_loop fid zid zone [] env n created_task_ids db = (Inr (created_task_ids, n), db)"
| "actions_loop fid zid zone (action # actions) env n created_task_ids db =
     (case env n of (uid, now_created, now_due) \<Rightarrow>
        (case create_task (create_task_from_action fid zid zone action uid now_created now_due) db of
           (Inl e, db') \<Rightarrow> (Inl e, db')
         | (Inr tid, db') \<Rightarrow>
             actions_loop fid zid zone actions env (Suc n) (created_task_ids @ [tid]) db'))"

fun zones_loop ::
  "string \<Rightarrow> zone_dict list \<Rightarrow> task_env \<Rightarrow> nat \<Rightarrow> string list \<Rightarrow> database \<Rightarrow>
   (error + string list \<times> nat) \<times> database" where
  "zones_loop fid [] env n created_task_ids db = (Inr (created_task_ids, n), db)"
| "zones_loop fid (zone # zones) env n created_task_ids db =
     (case z_zone_id zone of
        None \<Rightarrow> (Inl KeyError, db)
      | Some zid \<Rightarrow>
          (case actions_loop fid zid zone (dict_get (z_actions zone) []) env n created_task_ids db of
             (Inl e, db') \<Rightarrow> (Inl e, db')
           | (Inr (ids, n'), db') \<Rightarrow> zones_loop fid zones env n' ids db'))"

definition generate_ai_tasks_from_recommendations ::
  "string \<Rightarrow> zone_dict list option \<Rightarrow> task_env \<Rightarrow> database \<Rightarrow> (error + string list) \<times> database" where
  "generate_ai_tasks_from_recommendations fid recommendations env db =
     (case recommendations of
        None \<Rightarrow> (Inr [], db)
      | Some zones \<Rightarrow>
          (case zones_loop fid zones env 0 [] db of
             (Inl e, db') \<Rightarrow> (Inl e, db')
           | (Inr (ids, n), db') \<Rightarrow> (Inr ids, db')))"

subsection \<open>Weather alert tasks\<close>

record weather_forecast =
  wind_speed :: "real option"
  min_temperature :: "real option"
  precipitation :: "real option"

definition weather_task ::
  "string \<Rightarrow> TaskPriority \<Rightarrow> string \<Rightarrow> int \<Rightarrow> int \<Rightarrow> int \<Rightarrow> int \<Rightarrow> real \<Rightarrow> real \<Rightarrow>
   string list \<Rightarrow> string list \<Rightarrow> FarmerTask" where
  "weather_task uid prio fid now_created now_due hours duration cost confidence equipment risks =
     \<lparr> task_id = uid, category = WEATHER_ALERT, priority = prio, status = PENDING,
       field_id = fid, created_at = now_created,
       due_date = now_due + timedelta_hours hours,
       estimated_duration = duration, cost_estimate = cost, auto_generated = True,
       ai_confidence = confidence, completion_notes = None, completed_at = None,
       zone_id = None, area_hectares = None, equipment_needed = equipment,
       materials_needed = [], weather_dependent = True, risk_factors = risks \<rparr>"

text \<open>
  \<open>generate_weather_alerts\<close>: three checks in sequence, each with its own uuid and its
  own two clock readings (\<open>wind_env\<close>, \<open>frost_env\<close>, \<open>rain_env\<close>). \<open>alert_step\<close> is one
  check: when its condition holds, the task is built and handed to \<open>create_task\<close>, and
  the id that \<open>create_task\<close> returns is appended; an exception of \<open>create_task\<close> ends
  the call.
\<close>

definition alert_step ::
  "bool \<Rightarrow> FarmerTask \<Rightarrow> string list \<Rightarrow> database \<Rightarrow> (error + string list) \<times> database" where
  "alert_step fires task created_task_ids db =
     (if fires then
        (case create_task task db of
           (Inl e, db') \<Rightarrow> (Inl e, db')
         | (Inr tid, db') \<Rightarrow> (Inr (created_task_ids @ [tid]), db'))
      else (Inr created_task_ids, db))"

definition wind_task :: "string \<Rightarrow> string \<times> int \<times> int \<Rightarrow> FarmerTask" where
  "wind_task fid env =
     (case env of (uid, now_created, now_due) \<Rightarrow>
        weather_task uid HIGH fid now_created now_due 6 30 0 (95 / 100) []
          [''equipment_damage'', ''irrigation_disruption''])"

definition frost_task :: "string \<Rightarrow> string \<times> int \<times> int \<Rightarrow> FarmerTask" where
  "frost_task fid env =
     (case env of (uid, now_created, now_due) \<Rightarrow>
        weather_task uid URGENT fid now_created now_due 12 60 500 (98 / 100)
          [''frost_protection_covers'', ''irrigation_system''] [''crop_damage'', ''yield_loss''])"

definition rain_task :: "string \<Rightarrow> string \<times> int \<times> int \<Rightarrow> FarmerTask" where
  "rain_task fid env =
     (case env of (uid, now_created, now_due) \<Rightarrow>
        weather_task uid MEDIUM fid now_created now_due 8 45 0 (90 / 100) []
          [''waterlogging'', ''soil_compaction''])"

definition generate_weather_alerts ::
  "string \<Rightarrow> weather_forecast \<Rightarrow> string \<times> int \<times> int \<Rightarrow> string \<times> int \<times> int \<Rightarrow>
   string \<times> int \<times> int \<Rightarrow> database \<Rightarrow> (error + string list) \<times> database" where
  "generate_weather_alerts fid forecast wind_env frost_env rain_env db =
     (case alert_step (dict_get (wind_speed forecast) 0 > 40) (wind_task fid wind_env) [] db of
        (Inl e, db1) \<Rightarrow> (Inl e, db1)
      | (Inr ids1, db1) \<Rightarrow>
          (case alert_step (dict_get (min_temperature forecast) 10 < 2)
                  (frost_task fid frost_env) ids1 db1 of
             (Inl e, db2) \<Rightarrow> (Inl e, db2)
           | (Inr ids2, db2) \<Rightarrow>
               alert_step (dict_get (precipitation forecast) 0 > 50) (rain_task fid rain_env)
                 ids2 db2))"

subsection \<open>Task summary\<close>

text \<open>
  \<open>_get_category_breakdown\<close>: per category value the triple (count, pending, completed).
\<close>

fun get_category_breakdown ::
  "FarmerTask list \<Rightarrow> (TaskCategory \<rightharpoonup> nat \<times> nat \<times> nat) \<Rightarrow> (TaskCategory \<rightharpoonup> nat \<times> nat \<times> nat)" where
  "get_category_breakdown [] categories = categories"
| "get_category_breakdown (task # tasks) categories =
     (case dict_get (categories (category task)) (0, 0, 0) of (c, p, d) \<Rightarrow>
        get_category_breakdown tasks
          (categories(category task \<mapsto>
             (c + 1,
              if status task = PENDING then p + 1 else p,
              if status task \<noteq> PENDING \<and> status task = COMPLETED then d + 1 else d))))"

record task_summary =
  total_tasks :: nat
  pending :: nat
  in_progress :: nat
  completed :: nat
  overdue :: nat
  upcoming_3_days :: nat
  urgent_tasks :: nat
  auto_generated_count :: nat
  total_estimated_cost :: real
  categories :: "TaskCategory \<rightharpoonup> nat \<times> nat \<times> nat"

text \<open>
  \<open>get_task_summary\<close>: \<open>all_tasks\<close> is fetched first, then \<open>get_overdue_tasks\<close> runs (clock
  reading \<open>now1\<close>) and then \<open>get_upcoming_tasks\<close> (clock reading \<open>now2\<close>). The counts by
  status are taken from \<open>all_tasks\<close>. An exception of \<open>get_overdue_tasks\<close> is not
  caught and ends the call before any summary is built.
\<close>

definition get_task_summary ::
  "string list \<Rightarrow> int \<Rightarrow> int \<Rightarrow> database \<Rightarrow> (error + task_summary) \<times> database" where
  "get_task_summary field_ids now1 now2 db =
     (let all_tasks = get_tasks_for_farmer field_ids None None None db in
      case get_overdue_tasks field_ids now1 db of
        (Inl e, db1) \<Rightarrow> (Inl e, db1)
      | (Inr overdue_tasks, db1) \<Rightarrow>
          (case get_upcoming_tasks field_ids 3 now2 db1 of
             (upcoming_tasks, db2) \<Rightarrow>
               (Inr \<lparr> total_tasks = length all_tasks,
                      pending = length (filter (\<lambda>t. status t = PENDING) all_tasks),
                      in_progress = length (filter (\<lambda>t. status t = IN_PROGRESS) all_tasks),
                      completed = length (filter (\<lambda>t. status t = COMPLETED) all_tasks),
                      overdue = length overdue_tasks,
                      upcoming_3_days = length upcoming_tasks,
                      urgent_tasks =
                        length (filter (\<lambda>t. priority t = URGENT
                                           \<and> status t \<in> set [PENDING, IN_PROGRESS]) all_tasks),
                      auto_generated_count = length (filter auto_generated all_tasks),
                      total_estimated_cost =
                        sum_list (map cost_estimate
                                    (filter (\<lambda>t. status t \<noteq> COMPLETED) all_tasks)),
                      categories = get_category_breakdown all_tasks Map.empty \<rparr>, db2)))"

section \<open>Alert system (src/farmer_tasks/alert_system.py)\<close>

text \<open>
  The alert kinds are the strings \<open>'overdue'\<close>, \<open>'urgent'\<close>, \<open>'reminder_{N}h'\<close>,
  \<open>'weather_suitable'\<close> and \<open>'weather_warning'\<close>; \<open>Alert_reminder N\<close> stands for
  \<open>f'reminder_{N}h'\<close>.
\<close>

datatype alert_type =
    Alert_overdue | Alert_urgent | Alert_reminder int
  | Alert_weather_suitable | Alert_weather_warning

text \<open>
  The state of the alert system: the rows of the table \<open>sent_alerts\<close> as triples
  (id, task_id, alert_type), all with status \<open>'sent'\<close>, and the trace of the calls of
  \<open>_send_notification\<close>, one entry per dispatched alert. The column \<open>id\<close> is the primary
  key; the source fills it with \<open>alert_\<close> followed by the wall-clock second of the
  insertion, and the model keeps that second. The fan-out of one dispatch to the
  enabled channels is not modelled.
\<close>

record alert_state =
  sent_alerts :: "(int \<times> string \<times> alert_type) list"
  dispatched :: "(string \<times> alert_type) list"

record AlertConfig =
  reminder_hours_before :: "int list"

text \<open>\<open>_alert_sent\<close>: is there a row for this task and this kind.\<close>

definition alert_sent :: "string \<Rightarrow> alert_type \<Rightarrow> alert_state \<Rightarrow> bool" where
  "alert_sent tid kind st = list_ex (\<lambda>row. snd row = (tid, kind)) (sent_alerts st)"

text \<open>
  \<open>_log_alert_sent\<close>: one INSERT, committed on the same connection. \<open>sec\<close> is the
  wall-clock second read for the id; a row with that id already present raises
  \<open>sqlite3.IntegrityError\<close>.
\<close>

definition log_alert_sent ::
  "int \<Rightarrow> string \<Rightarrow> alert_type \<Rightarrow> alert_state \<Rightarrow> error + alert_state" where
  "log_alert_sent sec tid kind st =
     (if sec \<in> set (map fst (sent_alerts st)) then Inl IntegrityError
      else Inr (st\<lparr>sent_alerts := sent_alerts st @ [(sec, tid, kind)]\<rparr>))"

text \<open>
  \<open>_send_overdue_alert\<close>, \<open>_send_urgent_alert\<close>, \<open>_send_reminder_alert\<close>,
  \<open>_send_weather_suitable_alert\<close> and \<open>_send_weather_warning_alert\<close> differ in the message
  text only: each calls \<open>_send_notification\<close> with its kind and then \<open>_log_alert_sent\<close>
  with the same kind. \<open>clock k\<close> is the wall-clock second that \<open>_log_alert_sent\<close> reads
  when it is called after the dispatch number \<open>k\<close> of the trace (counted from 0). The
  result is the exception raised, if any, and the state afterwards: the dispatch
  stays in the trace also when the logging fails.
\<close>

definition send_alert ::
  "(nat \<Rightarrow> int) \<Rightarrow> FarmerTask \<Rightarrow> alert_type \<Rightarrow> alert_state \<Rightarrow> error option \<times> alert_state" where
  "send_alert clock task kind st =
     (let st1 = st\<lparr>dispatched := dispatched st @ [(task_id task, kind)]\<rparr> in
      case log_alert_sent (clock (length (dispatched st))) (task_id task) kind st1 of
        Inl e \<Rightarrow> (Some e, st1)
      | Inr st2 \<Rightarrow> (None, st2))"

fun check_reminder_alerts ::
  "(nat \<Rightarrow> int) \<Rightarrow> int list \<Rightarrow> FarmerTask \<Rightarrow> int \<Rightarrow> nat \<Rightarrow> alert_state \<Rightarrow>
   (error + nat) \<times> alert_state" where
  "check_reminder_alerts clock [] task current_time alerts st = (Inr alerts, st)"
| "check_reminder_alerts clock (hours_before # rest) task current_time alerts st =
     (let reminder_time = due_date task - timedelta_hours hours_before in
      if current_time \<ge> reminder_time
         \<and> current_time < reminder_time + timedelta_minutes 30
         \<and> \<not> alert_sent (task_id task) (Alert_reminder hours_before) st
      then
        (case send_alert clock task (Alert_reminder hours_before) st of
           (Some e, st') \<Rightarrow> (Inl e, st')
         | (None, st') \<Rightarrow> check_reminder_alerts clock rest task current_time (alerts + 1) st')
      else check_reminder_alerts clock rest task current_time alerts st)"

record weather_snapshot =
  sim_temperature :: int
  sim_humidity :: int
  sim_wind_speed :: int
  sim_precipitation_probability :: int

definition simulated_weather :: weather_snapshot where
  "simulated_weather =
     \<lparr> sim_temperature = 25, sim_humidity = 70, sim_wind_speed = 15,
       sim_precipitation_probability = 20 \<rparr>"

definition is_weather_suitable :: "FarmerTask \<Rightarrow> weather_snapshot \<Rightarrow> bool" where
  "is_weather_suitable task weather =
     (case category task of
        IRRIGATION \<Rightarrow> sim_precipitation_probability weather < 30
      | FERTILIZATION \<Rightarrow>
          sim_wind_speed weather < 20 \<and> sim_precipitation_probability weather < 20
      | PEST_CONTROL \<Rightarrow>
          sim_wind_speed weather < 15 \<and> sim_precipitation_probability weather < 10
      | HARVESTING \<Rightarrow> sim_precipitation_probability weather < 10
      | _ \<Rightarrow> True)"

definition is_weather_unsuitable :: "FarmerTask \<Rightarrow> weather_snapshot \<Rightarrow> bool" where
  "is_weather_unsuitable task weather =
     (case category task of
        IRRIGATION \<Rightarrow> sim_precipitation_probability weather > 70
      | FERTILIZATION \<Rightarrow>
          sim_wind_speed weather > 30 \<or> sim_precipitation_probability weather > 60
      | PEST_CONTROL \<Rightarrow>
          sim_wind_speed weather > 25 \<or> sim_precipitation_probability weather > 50
      | HARVESTING \<Rightarrow> sim_precipitation_probability weather > 40
      | _ \<Rightarrow> False)"

definition check_weather_alerts ::
  "(nat \<Rightarrow> int) \<Rightarrow> FarmerTask \<Rightarrow> alert_state \<Rightarrow> (error + nat) \<times> alert_state" where
  "check_weather_alerts clock task st =
     (if weather_dependent task \<and> \<not> alert_sent (task_id task) Alert_weather_suitable st then
        (if is_weather_suitable task simulated_weather then
           (case send_alert clock task Alert_weather_suitable st of
              (Some e, st') \<Rightarrow> (Inl e, st')
            | (None, st') \<Rightarrow> (Inr 1, st'))
         else if is_weather_unsuitable task simulated_weather then
           (case send_alert clock task Alert_weather_warning st of
              (Some e, st') \<Rightarrow> (Inl e, st')
            | (None, st') \<Rightarrow> (Inr 1, st'))
         else (Inr 0, st))
      else (Inr 0, st))"

record alerts_sent =
  n_overdue :: nat
  n_urgent :: nat
  n_reminders :: nat
  n_weather :: nat
  n_total :: nat

text \<open>
  The body of the loop of \<open>check_and_send_alerts\<close> for one fetched task: first the
  chain overdue / urgent / reminders, then the weather check.
\<close>

definition alert_task_first ::
  "AlertConfig \<Rightarrow> (nat \<Rightarrow> int) \<Rightarrow> int \<Rightarrow> FarmerTask \<Rightarrow> alerts_sent \<Rightarrow> alert_state \<Rightarrow>
   (error + alerts_sent) \<times> alert_state" where
  "alert_task_first cfg clock current_time task cnt st =
     (if due_date task < current_time \<and> status task \<noteq> OVERDUE then
        (case send_alert clock task Alert_overdue st of
           (Some e, st') \<Rightarrow> (Inl e, st')
         | (None, st') \<Rightarrow> (Inr (cnt\<lparr>n_overdue := n_overdue cnt + 1\<rparr>), st'))
      else if priority task = URGENT \<and> \<not> alert_sent (task_id task) Alert_urgent st then
        (case send_alert clock task Alert_urgent st of
           (Some e, st') \<Rightarrow> (Inl e, st')
         | (None, st') \<Rightarrow> (Inr (cnt\<lparr>n_urgent := n_urgent cnt + 1\<rparr>), st'))
      else
        (case check_reminder_alerts clock (reminder_hours_before cfg) task current_time 0 st of
           (Inl e, st') \<Rightarrow> (Inl e, st')
         | (Inr reminder_alerts, st') \<Rightarrow>
             (Inr (cnt\<lparr>n_reminders := n_reminders cnt + reminder_alerts\<rparr>), st')))"

definition alert_task ::
  "AlertConfig \<Rightarrow> (nat \<Rightarrow> int) \<Rightarrow> int \<Rightarrow> FarmerTask \<Rightarrow> alerts_sent \<Rightarrow> alert_state \<Rightarrow>
   (error + alerts_sent) \<times> alert_state" where
  "alert_task cfg clock current_time task cnt st =
     (case alert_task_first cfg clock current_time task cnt st of
        (Inl e, st1) \<Rightarrow> (Inl e, st1)
      | (Inr cnt1, st1) \<Rightarrow>
          if weather_dependent task then
            (case check_weather_alerts clock task st1 of
               (Inl e, st2) \<Rightarrow> (Inl e, st2)
             | (Inr weather_alerts, st2) \<Rightarrow>
                 (Inr (cnt1\<lparr>n_weather := n_weather cnt1 + weather_alerts\<rparr>), st2))
          else (Inr cnt1, st1))"

fun alerts_loop ::
  "AlertConfig \<Rightarrow> (nat \<Rightarrow> int) \<Rightarrow> int \<Rightarrow> FarmerTask list \<Rightarrow> alerts_sent \<Rightarrow> alert_state \<Rightarrow>
   (error + alerts_sent) \<times> alert_state" where
  "alerts_loop cfg clock current_time [] cnt st = (Inr cnt, st)"
| "alerts_loop cfg clock current_time (task # tasks) cnt st =
     (case alert_task cfg clock current_time task cnt st of
        (Inl e, st') \<Rightarrow> (Inl e, st')
      | (Inr cnt', st') \<Rightarrow> alerts_loop cfg clock current_time tasks cnt' st')"

text \<open>
  \<open>check_and_send_alerts\<close>: the pending and in-progress tasks are fetched once, the clock
  is read once, and the loop runs over the fetched tasks. The task table is not
  written. An exception of \<open>_log_alert_sent\<close> is not caught and ends the scan.
\<close>

definition check_and_send_alerts ::
  "AlertConfig \<Rightarrow> (nat \<Rightarrow> int) \<Rightarrow> string list \<Rightarrow> int \<Rightarrow> database \<Rightarrow> alert_state \<Rightarrow>
   (error + alerts_sent) \<times> alert_state" where
  "check_and_send_alerts cfg clock field_ids current_time db st =
     (let tasks = get_tasks_for_farmer field_ids (Some [PENDING, IN_PROGRESS]) None None db in
      case alerts_loop cfg clock current_time tasks
             \<lparr>n_overdue = 0, n_urgent = 0, n_reminders = 0, n_weather = 0, n_total = 0\<rparr> st of
        (Inl e, st') \<Rightarrow> (Inl e, st')
      | (Inr cnt, st') \<Rightarrow>
          (Inr (cnt\<lparr>n_total := n_overdue cnt + n_urgent cnt + n_reminders cnt + n_weather cnt
                                 + n_total cnt - n_total cnt\<rparr>), st'))"

section \<open>Recommendation engine (src/recommendation_engine/smart_recommendations.py)\<close>

datatype GrowthStage =
    GS_PLANTING | GS_EMERGENCE | GS_VEGETATIVE_GROWTH | GS_TUBER_INITIATION
  | GS_TUBER_BULKING | GS_MATURATION

datatype RecommendationType = RT_IRRIGATION | RT_FERTILIZATION | RT_PEST_MANAGEMENT | RT_HARVESTING

text \<open>\<open>GrowthStage(growth_stage)\<close>: the enum member with that value, \<open>None\<close> for \<open>ValueError\<close>.\<close>

definition GrowthStage_of_value :: "string \<Rightarrow> GrowthStage option" where
  "GrowthStage_of_value s =
     (if s = ''Planting'' then Some GS_PLANTING
      else if s = ''Emergence'' then Some GS_EMERGENCE
      else if s = ''Vegetative_Growth'' then Some GS_VEGETATIVE_GROWTH
      else if s = ''Tuber_Initiation'' then Some GS_TUBER_INITIATION
      else if s = ''Tuber_Bulking'' then Some GS_TUBER_BULKING
      else if s = ''Maturation'' then Some GS_MATURATION
      else None)"

record stage_requirements =
  water_requirement_mm :: real
  critical_nutrients :: "string list"
  irrigation_frequency :: string
  fertilizer_focus :: string

fun growth_stage_requirements :: "GrowthStage \<Rightarrow> stage_requirements" where
  "growth_stage_requirements GS_PLANTING =
     \<lparr> water_requirement_mm = 20, critical_nutrients = [''phosphorus''],
       irrigation_frequency = ''daily'', fertilizer_focus = ''starter'' \<rparr>"
| "growth_stage_requirements GS_EMERGENCE =
     \<lparr> water_requirement_mm = 25, critical_nutrients = [''nitrogen'', ''phosphorus''],
       irrigation_frequency = ''every_2_days'', fertilizer_focus = ''balanced'' \<rparr>"
| "growth_stage_requirements GS_VEGETATIVE_GROWTH =
     \<lparr> water_requirement_mm = 35, critical_nutrients = [''nitrogen''],
       irrigation_frequency = ''every_2_days'', fertilizer_focus = ''nitrogen'' \<rparr>"
| "growth_stage_requirements GS_TUBER_INITIATION =
     \<lparr> water_requirement_mm = 45, critical_nutrients = [''potassium'', ''calcium''],
       irrigation_frequency = ''daily'', fertilizer_focus = ''potassium'' \<rparr>"
| "growth_stage_requirements GS_TUBER_BULKING =
     \<lparr> water_requirement_mm = 50, critical_nutrients = [''potassium'', ''magnesium''],
       irrigation_frequency = ''daily'', fertilizer_focus = ''potassium'' \<rparr>"
| "growth_stage_requirements GS_MATURATION =
     \<lparr> water_requirement_mm = 15, critical_nutrients = [],
       irrigation_frequency = ''reduce'', fertilizer_focus = ''none'' \<rparr>"

record thresholds =
  severe_deficiency :: real
  deficiency :: real
  sufficient :: real
  excess :: real

definition nutrient_thresholds :: "string \<Rightarrow> thresholds option" where
  "nutrient_thresholds nutrient =
     (if nutrient = ''nitrogen'' then
        Some \<lparr> severe_deficiency = 25, deficiency = 35, sufficient = 45, excess = 75 \<rparr>
      else if nutrient = ''phosphorus'' then
        Some \<lparr> severe_deficiency = 12, deficiency = 18, sufficient = 25, excess = 40 \<rparr>
      else if nutrient = ''potassium'' then
        Some \<lparr> severe_deficiency = 120, deficiency = 160, sufficient = 200, excess = 280 \<rparr>
      else if nutrient = ''magnesium'' then
        Some \<lparr> severe_deficiency = 40, deficiency = 60, sufficient = 80, excess = 140 \<rparr>
      else if nutrient = ''calcium'' then
        Some \<lparr> severe_deficiency = 800, deficiency = 1200, sufficient = 1500, excess = 2200 \<rparr>
      else None)"

text \<open>
  A row of the zone analysis (\<open>zone_data\<close>, a pandas Series). Every column but
  \<open>zone_id\<close> is read with \<open>.get(column, default)\<close>.
\<close>

record zone_measurement =
  zm_zone_id :: int
  zm_area_ha :: "real option"
  zm_growth_stage :: "string option"
  NDVI_mean :: "real option"
  NDRE_mean :: "real option"
  nitrogen_level :: "real option"
  phosphorus_level :: "real option"
  potassium_level :: "real option"
  soil_moisture :: "real option"

record forecast_7day =
  precipitation_7day :: "real option"
  max_temperature_7day :: "real option"
  avg_temperature_7day :: "real option"
  avg_humidity_7day :: "real option"

text \<open>\<open>zone_data.get(f'{nutrient}_level', 50)\<close>.\<close>

definition zone_level :: "zone_measurement \<Rightarrow> string \<Rightarrow> real" where
  "zone_level zone_data nutrient =
     dict_get (if nutrient = ''nitrogen'' then nitrogen_level zone_data
               else if nutrient = ''phosphorus'' then phosphorus_level zone_data
               else if nutrient = ''potassium'' then potassium_level zone_data
               else None) 50"

text \<open>The chain of comparisons in the loop of \<open>_assess_nutrient_status\<close>.\<close>

definition status_of_level :: "thresholds \<Rightarrow> real \<Rightarrow> string" where
  "status_of_level th level =
     (if level < severe_deficiency th then ''severe_deficiency''
      else if level < deficiency th then ''deficiency''
      else if level < sufficient th then ''marginal''
      else if level > excess th then ''excess''
      else ''sufficient'')"

text \<open>
  \<open>_assess_nutrient_status\<close>: the dictionary it builds, as the list of its items in
  insertion order. A nutrient without thresholds raises \<open>KeyError\<close>.
\<close>

fun assess_loop ::
  "zone_measurement \<Rightarrow> string list \<Rightarrow> (string \<times> string) list \<Rightarrow> error + (string \<times> string) list" where
  "assess_loop zone_data [] nutrient_status = Inr nutrient_status"
| "assess_loop zone_data (nutrient # rest) nutrient_status =
     (case nutrient_thresholds nutrient of
        None \<Rightarrow> Inl KeyError
      | Some th \<Rightarrow>
          assess_loop zone_data rest
            (nutrient_status @ [(nutrient, status_of_level th (zone_level zone_data nutrient))]))"

definition assess_nutrient_status :: "zone_measurement \<Rightarrow> error + (string \<times> string) list" where
  "assess_nutrient_status zone_data =
     assess_loop zone_data [''nitrogen'', ''phosphorus'', ''potassium''] []"

text \<open>\<open>_calculate_stress_indicators\<close>: the dictionary of the three indicators.\<close>

definition calculate_stress_indicators ::
  "zone_measurement \<Rightarrow> forecast_7day \<Rightarrow> error + (string \<rightharpoonup> real)" where
  "calculate_stress_indicators zone_data forecast =
     (let moisture = dict_get (soil_moisture zone_data) 25;
          precip = dict_get (precipitation_7day forecast) 10;
          water_stress = max 0 ((25 - moisture) / 25) * max 0 ((20 - precip) / 20);
          max_temp = dict_get (max_temperature_7day forecast) 25;
          temp_stress = (if max_temp > 30 then max 0 ((max_temp - 30) / 10) else 0);
          nitrogen = dict_get (nitrogen_level zone_data) 50
      in (case nutrient_thresholds ''nitrogen'' of
            None \<Rightarrow> Inl KeyError
          | Some th \<Rightarrow>
              (let nitrogen_threshold = sufficient th;
                   nutrient_stress = max 0 ((nitrogen_threshold - nitrogen) / nitrogen_threshold)
               in Inr [''water_stress'' \<mapsto> min water_stress 1,
                       ''temperature_stress'' \<mapsto> min temp_stress 1,
                       ''nutrient_stress'' \<mapsto> min nutrient_stress 1])))"

record RecommendationAction =
  ra_action_type :: RecommendationType
  ra_priority :: string
  ra_description :: string
  ra_timing :: string
  ra_zone_ids :: "int list"
  application_rate :: "real option"
  application_unit :: "string option"
  estimated_cost :: "real option"
  expected_benefit :: "string option"

text \<open>
  \<open>_generate_irrigation_recommendations\<close>. \<open>fmt\<close> is the text Python's format \<open>.1f\<close>
  produces for a number, which is not modelled.
\<close>

definition generate_irrigation_recommendations ::
  "(real \<Rightarrow> string) \<Rightarrow> zone_measurement \<Rightarrow> string \<Rightarrow> forecast_7day \<Rightarrow> (string \<rightharpoonup> real) \<Rightarrow>
   RecommendationAction list" where
  "generate_irrigation_recommendations fmt zone_data growth_stage forecast stress_indicators =
     (let stage_enum = (case GrowthStage_of_value growth_stage of
                          Some s \<Rightarrow> s | None \<Rightarrow> GS_VEGETATIVE_GROWTH);
          stage_req = growth_stage_requirements stage_enum;
          base_requirement = water_requirement_mm stage_req;
          stress_multiplier = 1 + dict_get (stress_indicators ''water_stress'') 0 * 0.3;
          precip = dict_get (precipitation_7day forecast) 0;
          net_requirement = max 0 ((base_requirement * stress_multiplier) - precip)
      in if net_requirement > 5 then
           (let prio = (if dict_get (stress_indicators ''water_stress'') 0 > 0.7
                        then ''high'' else ''medium'');
                timing = (if prio = ''high'' then ''immediate'' else ''within_week'');
                cost_per_ha = net_requirement * 830
            in [\<lparr> ra_action_type = RT_IRRIGATION,
                  ra_priority = prio,
                  ra_description = ''Apply '' @ fmt net_requirement
                    @ ''mm irrigation based on growth stage requirements and stress indicators'',
                  ra_timing = timing,
                  ra_zone_ids = [zm_zone_id zone_data],
                  application_rate = Some net_requirement,
                  application_unit = Some ''mm'',
                  estimated_cost = Some (cost_per_ha * dict_get (zm_area_ha zone_data) 1),
                  expected_benefit =
                    Some (''Reduce water stress, maintain optimal soil moisture for ''
                          @ growth_stage @ '' stage'') \<rparr>])
         else [])"

text \<open>\<open>_estimate_yield_impact\<close>: the loop adding to \<open>total_impact\<close>, then the cap.\<close>

fun yield_impact_loop :: "RecommendationAction list \<Rightarrow> real \<Rightarrow> real" where
  "yield_impact_loop [] total_impact = total_impact"
| "yield_impact_loop (action # actions) total_impact =
     yield_impact_loop actions
       (if ra_action_type action = RT_IRRIGATION then
          (if ra_priority action = ''high'' then total_impact + 0.12 else total_impact + 0.08)
        else if ra_action_type action = RT_FERTILIZATION then
          (if str_contains ''severe_deficiency'' (ra_description action) then total_impact + 0.20
           else if str_contains ''deficiency'' (ra_description action) then total_impact + 0.10
           else total_impact + 0.05)
        else if ra_action_type action = RT_PEST_MANAGEMENT then
          (if ra_priority action = ''high'' then total_impact + 0.15 else total_impact + 0.05)
        else total_impact)"

definition estimate_yield_impact :: "RecommendationAction list \<Rightarrow> zone_measurement \<Rightarrow> real" where
  "estimate_yield_impact actions zone_data = min (yield_impact_loop actions 0) 0.40"

record ZoneRecommendation =
  zr_zone_id :: int
  zr_area_ha :: real
  zr_growth_stage :: string
  zr_health_status :: string
  zr_nutrient_status :: "(string \<times> string) list"
  zr_stress_indicators :: "string \<rightharpoonup> real"
  zr_actions :: "RecommendationAction list"
  estimated_yield_impact :: real
  zr_total_cost :: real

text \<open>
  \<open>np.mean\<close> of a list: \<open>None\<close> stands for the \<open>nan\<close> that numpy returns on the empty
  list.
\<close>

definition np_mean :: "real list \<Rightarrow> real option" where
  "np_mean xs = (if xs = [] then None else Some (sum_list xs / real (length xs)))"

text \<open>\<open>_estimate_roi\<close>; \<open>None\<close> is the \<open>nan\<close> that the mean of no zone propagates.\<close>

definition estimate_roi :: "ZoneRecommendation list \<Rightarrow> real \<Rightarrow> real option" where
  "estimate_roi zone_recommendations total_cost =
     (if total_cost = 0 then Some 0
      else
        (let total_area = sum_list (map zr_area_ha zone_recommendations) in
         case np_mean (map estimated_yield_impact zone_recommendations) of
           None \<Rightarrow> None
         | Some avg_yield_impact \<Rightarrow>
             (let base_yield_value = total_area * 25 * 300;
                  yield_improvement_value = base_yield_value * avg_yield_impact;
                  roi = ((yield_improvement_value - total_cost) / total_cost) * 100
              in Some (max roi 0))))"

section \<open>Auxiliary notions used in the statements and proofs\<close>

text \<open>
  The contribution of one action to the yield impact, in the words of the
  specification, section 4.3: irrigation 0.12 if high priority else 0.08;
  fertilization 0.20 if the description mentions severe_deficiency, 0.10 if it mentions
  deficiency, else 0.05; pest management 0.15 if high priority else 0.05. The
  specification names no contribution for harvesting actions.
\<close>

definition spec_contribution :: "RecommendationAction \<Rightarrow> real" where
  "spec_contribution action =
     (case ra_action_type action of
        RT_IRRIGATION \<Rightarrow> (if ra_priority action = ''high'' then 0.12 else 0.08)
      | RT_FERTILIZATION \<Rightarrow>
          (if str_contains ''severe_deficiency'' (ra_description action) then 0.20
           else if str_contains ''deficiency'' (ra_description action) then 0.10
           else 0.05)
      | RT_PEST_MANAGEMENT \<Rightarrow> (if ra_priority action = ''high'' then 0.15 else 0.05)
      | RT_HARVESTING \<Rightarrow> 0)"

text \<open>
  The order of the five nutrient statuses that "monotone classification" refers to:
  severe_deficiency, deficiency, marginal, sufficient, excess.
\<close>

definition status_rank :: "string \<Rightarrow> nat" where
  "status_rank s =
     (if s = ''severe_deficiency'' then 0
      else if s = ''deficiency'' then 1
      else if s = ''marginal'' then 2
      else if s = ''sufficient'' then 3
      else 4)"

text \<open>
  The part of \<open>_generate_zone_recommendations\<close> that leads to the irrigation actions:
  the growth stage is read from the zone with default \<open>'Vegetative_Growth'\<close>, the stress
  indicators are computed and passed to the irrigation generator.
\<close>

definition zone_irrigation_actions ::
  "(real \<Rightarrow> string) \<Rightarrow> zone_measurement \<Rightarrow> forecast_7day \<Rightarrow>
   error + ((string \<rightharpoonup> real) \<times> RecommendationAction list)" where
  "zone_irrigation_actions fmt zone_data forecast =
     (let growth_stage = dict_get (zm_growth_stage zone_data) ''Vegetative_Growth'' in
      case calculate_stress_indicators zone_data forecast of
        Inl e \<Rightarrow> Inl e
      | Inr stress_indicators \<Rightarrow>
          Inr (stress_indicators,
               generate_irrigation_recommendations fmt zone_data growth_stage forecast
                 stress_indicators))"

text \<open>Concrete inputs used in the closed theorems below.\<close>

definition example_zone :: zone_measurement where
  "example_zone =
     \<lparr> zm_zone_id = 1, zm_area_ha = Some 2, zm_growth_stage = Some ''Vegetative_Growth'',
       NDVI_mean = None, NDRE_mean = None, nitrogen_level = Some 20, phosphorus_level = None,
       potassium_level = None, soil_moisture = Some 10 \<rparr>"

definition example_forecast :: forecast_7day where
  "example_forecast =
     \<lparr> precipitation_7day = Some 0, max_temperature_7day = None,
       avg_temperature_7day = None, avg_humidity_7day = None \<rparr>"

definition example_config :: AlertConfig where
  "example_config = \<lparr> reminder_hours_before = [24, 4, 1] \<rparr>"

definition no_alerts :: alert_state where
  "no_alerts = \<lparr> sent_alerts = [], dispatched = [] \<rparr>"

text \<open>
  The due-date offset in days by timing and the category by action type, in the
  words of the specification, section 4.4: immediate 1 day, within_week 3 days,
  within_month 14 days, unrecognized 3 days; irrigation, fertilization, pest_control
  and monitoring map to the category of the same name, unknown action types to
  monitoring.
\<close>

definition spec_timing_days :: "string option \<Rightarrow> int" where
  "spec_timing_days timing =
     (if timing = Some ''immediate'' then 1
      else if timing = Some ''within_week'' then 3
      else if timing = Some ''within_month'' then 14
      else 3)"

definition spec_category :: "string option \<Rightarrow> TaskCategory" where
  "spec_category action_type =
     (if action_type = Some ''irrigation'' then IRRIGATION
      else if action_type = Some ''fertilization'' then FERTILIZATION
      else if action_type = Some ''pest_control'' then PEST_CONTROL
      else if action_type = Some ''monitoring'' then MONITORING
      else MONITORING)"

definition example_action :: action_dict where
  "example_action =
     \<lparr> a_type = Some ''irrigation'', a_priority = Some ''high'',
       a_timing = Some ''immediate'', a_cost = Some 200, a_rate = None \<rparr>"

definition example_zone_dict :: zone_dict where
  "example_zone_dict =
     \<lparr> z_zone_id = Some ''1'', z_area_ha = Some (5 / 2), z_actions = Some [example_action] \<rparr>"

definition example_db :: database where
  "example_db = \<lparr> farmer_tasks = [example_task], task_history = [] \<rparr>"

definition empty_db :: database where
  "empty_db = \<lparr> farmer_tasks = [], task_history = [] \<rparr>"

definition example_clock :: "nat \<Rightarrow> int" where
  "example_clock k = 1000 + int k"

section \<open>Properties of the task manager\<close>

subsection \<open>Writes that are logged before they are committed\<close>

text \<open>
  \<open>create_task\<close> and \<open>update_task_status\<close> call \<open>_log_task_action\<close> while their own
  transaction is open, so both always raise and neither changes the database.
\<close>

lemma create_task_raises:
  "create_task task db =
     (Inl (if task_id task \<in> set (map task_id (farmer_tasks db))
           then IntegrityError else OperationalError), db)"
  by (simp add: create_task_def log_task_action_def)

lemma update_task_status_raises:
  "update_task_status tid new_status notes now db = (Inl OperationalError, db)"
  by (simp add: update_task_status_def log_task_action_def)

lemma overdue_loop_none_due:
  "\<forall>t\<in>set tasks. \<not> due_date t < now \<Longrightarrow> overdue_loop now tasks acc db = (Inr acc, db)"
  by (induction tasks arbitrary: acc) simp_all

lemma overdue_loop_some_due:
  "\<exists>t\<in>set tasks. due_date t < now \<Longrightarrow> overdue_loop now tasks acc db = (Inl OperationalError, db)"
proof (induction tasks arbitrary: acc)
  case Nil
  then show ?case by simp
next
  case (Cons task tasks)
  show ?case
  proof (cases "due_date task < now")
    case True
    then show ?thesis by (simp add: update_task_status_raises)
  next
    case False
    with Cons.prems have "\<exists>t\<in>set tasks. due_date t < now" by simp
    with Cons.IH False show ?thesis by simp
  qed
qed



lemma set_get_tasks_active:
  "set (get_tasks_for_farmer fids (Some [PENDING, IN_PROGRESS]) None None db)
     = {t \<in> set (farmer_tasks db). field_id t \<in> set fids \<and> status t \<in> {PENDING, IN_PROGRESS}}"
  by (auto simp: get_tasks_for_farmer_def in_filter_def)

lemma get_overdue_tasks_none_due:
  assumes "\<forall>t\<in>set (farmer_tasks db).
             field_id t \<in> set fids \<and> status t \<in> {PENDING, IN_PROGRESS} \<longrightarrow> now \<le> due_date t"
  shows "get_overdue_tasks fids now db = (Inr [], db)"
proof -
  have "\<forall>t\<in>set (get_tasks_for_farmer fids (Some [PENDING, IN_PROGRESS]) None None db).
          \<not> due_date t < now"
    unfolding set_get_tasks_active using assms by fastforce
  then show ?thesis
    by (simp add: get_overdue_tasks_def overdue_loop_none_due)
qed

lemma get_overdue_tasks_some_due:
  assumes "t \<in> set (farmer_tasks db)" and "field_id t \<in> set fids"
    and "status t \<in> {PENDING, IN_PROGRESS}" and "due_date t < now"
  shows "get_overdue_tasks fids now db = (Inl OperationalError, db)"
proof -
  have "t \<in> set (get_tasks_for_farmer fids (Some [PENDING, IN_PROGRESS]) None None db)"
    unfolding set_get_tasks_active using assms by simp
  then have "\<exists>t\<in>set (get_tasks_for_farmer fids (Some [PENDING, IN_PROGRESS]) None None db).
          due_date t < now"
    using assms(4) by blast
  then show ?thesis
    by (simp add: get_overdue_tasks_def overdue_loop_some_due)
qed

subsection \<open>Status transitions\<close>



subsection \<open>The lazy overdue transition\<close>

text \<open>
  Claim C3, as stated, fails for \<open>get_upcoming_tasks\<close>: on a pending task whose due date
  has passed it returns the task still PENDING and leaves the database as it was.
\<close>

theorem get_upcoming_tasks_no_transition_counterexample:
  "status example_task = PENDING \<and> due_date example_task < 200
   \<and> get_upcoming_tasks [''field_001''] 7 200 example_db = ([example_task], example_db)"
  by (simp add: get_upcoming_tasks_def get_tasks_for_farmer_def in_filter_def example_task_def
        example_db_def timedelta_days_def)

text \<open>
  Claim C3, amended: \<open>get_upcoming_tasks\<close> makes no re-check of the due date against now
  and no update: it returns exactly the pending and in-progress tasks of the queried
  fields that are due up to now + days_ahead, each as it is stored and as often as it
  is stored, and leaves the database unchanged. The query that re-checks
  \<open>due_date < now\<close> is \<open>get_overdue_tasks\<close>; when none of the pending and in-progress
  tasks of the queried fields is past due, it returns the empty list and leaves the
  database unchanged. (What \<open>get_overdue_tasks\<close> does with a task that is past due is
  not part of the amended claim.)
\<close>

theorem get_upcoming_tasks_no_recheck:
  "snd (get_upcoming_tasks fids days_ahead now db) = db
   \<and> set (fst (get_upcoming_tasks fids days_ahead now db))
       = {t \<in> set (farmer_tasks db). field_id t \<in> set fids \<and> status t \<in> {PENDING, IN_PROGRESS}
            \<and> due_date t \<le> now + days_ahead * 86400000000}
   \<and> length (fst (get_upcoming_tasks fids days_ahead now db))
       = length (filter (\<lambda>t. field_id t \<in> set fids \<and> status t \<in> {PENDING, IN_PROGRESS}
                            \<and> due_date t \<le> now + days_ahead * 86400000000) (farmer_tasks db))
   \<and> ((\<forall>t\<in>set (farmer_tasks db).
          field_id t \<in> set fids \<and> status t \<in> {PENDING, IN_PROGRESS} \<longrightarrow> now \<le> due_date t)
        \<longrightarrow> get_overdue_tasks fids now db = (Inr [], db))"
proof -
  have a: "snd (get_upcoming_tasks fids days_ahead now db) = db"
    by (simp add: get_upcoming_tasks_def Let_def)
  have b: "set (fst (get_upcoming_tasks fids days_ahead now db))
       = {t \<in> set (farmer_tasks db). field_id t \<in> set fids \<and> status t \<in> {PENDING, IN_PROGRESS}
            \<and> due_date t \<le> now + days_ahead * 86400000000}"
    by (auto simp: get_upcoming_tasks_def Let_def set_get_tasks_active timedelta_days_def)
  have "length (fst (get_upcoming_tasks fids days_ahead now db))
          = length (filter (\<lambda>t. due_date t \<le> now + days_ahead * 86400000000)
              (filter (\<lambda>t. field_id t \<in> set fids \<and> in_filter (Some [PENDING, IN_PROGRESS]) (status t)
                          \<and> in_filter None (category t) \<and> in_filter None (priority t))
                 (farmer_tasks db)))"
    by (simp add: get_upcoming_tasks_def Let_def get_tasks_for_farmer_def filter_sort
          timedelta_days_def)
  also have "\<dots> = length (filter (\<lambda>t. field_id t \<in> set fids \<and> status t \<in> {PENDING, IN_PROGRESS}
                            \<and> due_date t \<le> now + days_ahead * 86400000000) (farmer_tasks db))"
    unfolding filter_filter
    by (rule arg_cong[where f = length], rule filter_cong) (auto simp: in_filter_def)
  finally have c: "length (fst (get_upcoming_tasks fids days_ahead now db))
       = length (filter (\<lambda>t. field_id t \<in> set fids \<and> status t \<in> {PENDING, IN_PROGRESS}
                            \<and> due_date t \<le> now + days_ahead * 86400000000) (farmer_tasks db))" .
  show ?thesis
    using a b c get_overdue_tasks_none_due[of db fids now] by blast
qed

theorem get_upcoming_tasks_no_recheck_witness:
  "get_overdue_tasks [''field_001''] 50 example_db = (Inr [], example_db)
   \<and> fst (get_upcoming_tasks [''field_001''] 7 200 example_db) = [example_task]
   \<and> (50::int) \<le> due_date example_task"
proof -
  have h: "\<forall>t\<in>set (farmer_tasks example_db).
      field_id t \<in> set [''field_001''] \<and> status t \<in> {PENDING, IN_PROGRESS} \<longrightarrow> 50 \<le> due_date t"
    by (simp add: example_db_def example_task_def)
  have u: "fst (get_upcoming_tasks [''field_001''] 7 200 example_db) = [example_task]"
    by (simp add: get_upcoming_tasks_def get_tasks_for_farmer_def in_filter_def example_task_def
          example_db_def timedelta_days_def)
  have d: "(50::int) \<le> due_date example_task"
    by (simp add: example_task_def)
  show ?thesis
    using h u d get_upcoming_tasks_no_recheck [of "[''field_001'']" 7 50 example_db] by blast
qed

subsection \<open>The task summary\<close>

text \<open>
  Claim C10 against the code: for a pending task of the queried fields whose due date
  has passed, \<open>get_task_summary\<close> returns no summary. \<open>get_overdue_tasks\<close> finds the task
  past due and calls \<open>update_task_status\<close>, which raises \<open>OperationalError\<close>; nothing
  catches it, and the task stays stored as PENDING.
\<close>

theorem get_task_summary_raises_on_past_due:
  "status example_task = PENDING \<and> due_date example_task < 200
   \<and> field_id example_task \<in> set [''field_001'']
   \<and> get_task_summary [''field_001''] 200 201 example_db = (Inl OperationalError, example_db)"
proof -
  have "example_task \<in> set (farmer_tasks example_db)"
    by (simp add: example_db_def)
  then have "get_overdue_tasks [''field_001''] 200 example_db = (Inl OperationalError, example_db)"
    by (rule get_overdue_tasks_some_due) (simp_all add: example_task_def)
  then show ?thesis
    by (simp add: get_task_summary_def example_task_def)
qed

subsection \<open>Weather alert tasks\<close>

text \<open>
  Claim C9 against the code: for the forecast with wind_speed 45, min_temperature 1 and
  precipitation 60 no task is created. The wind check fires, the wind task is built
  and handed to \<open>create_task\<close>, which raises \<open>OperationalError\<close>; nothing catches it, so
  the frost and rain checks are not reached and the table stays empty.
\<close>

theorem generate_weather_alerts_raises:
  "generate_weather_alerts ''field_001''
     \<lparr>wind_speed = Some 45, min_temperature = Some 1, precipitation = Some 60\<rparr>
     (''w'', 0, 1) (''f'', 2, 3) (''r'', 4, 5) empty_db
   = (Inl OperationalError, empty_db)"
  by (simp add: generate_weather_alerts_def alert_step_def create_task_raises dict_get_def
        empty_db_def)

subsection \<open>Tasks from recommendation actions\<close>

lemma conversion_fields:
  "due_date (create_task_from_action fid zid zone_data action uid now_created now_due)
     = now_due + 86400000000 * spec_timing_days (a_timing action)"
  "created_at (create_task_from_action fid zid zone_data action uid now_created now_due)
     = now_created"
  "category (create_task_from_action fid zid zone_data action uid now_created now_due)
     = spec_category (a_type action)"
  by (cases "a_timing action"; cases "a_type action";
      simp add: create_task_from_action_def dict_get_def timing_days_def category_mapping_def
        timedelta_days_def Let_def spec_timing_days_def spec_category_def)+

text \<open>
  Claim C5: the task that \<open>_create_task_from_action\<close> builds is due 1 day after the
  clock reading taken for its due date when the action's timing is "immediate", 3 days
  for "within_week", 14 days for "within_month" and 3 days for any other or absent
  timing (a day is 86400000000 microseconds); its category is the one named by the
  action's type for irrigation, fertilization, pest_control and monitoring, and
  MONITORING for every other or absent type. (\<open>created_at\<close> is a clock reading of its
  own, taken just before.)
\<close>

theorem create_task_from_action_due_date_category:
  "due_date (create_task_from_action fid zid zone_data action uid now_created now_due)
     = now_due + 86400000000 * spec_timing_days (a_timing action)
   \<and> created_at (create_task_from_action fid zid zone_data action uid now_created now_due)
       = now_created
   \<and> category (create_task_from_action fid zid zone_data action uid now_created now_due)
       = spec_category (a_type action)"
  using conversion_fields[of fid zid zone_data action uid now_created now_due] by blast

theorem create_task_from_action_due_date_category_witness:
  "due_date (create_task_from_action ''field_001'' ''1'' example_zone_dict example_action
               ''u'' 10 20) = 86400000020
   \<and> category (create_task_from_action ''field_001'' ''1'' example_zone_dict example_action
                 ''u'' 10 20) = IRRIGATION"
  using create_task_from_action_due_date_category [of "''field_001''" "''1''"
      example_zone_dict example_action "''u''" 10 20]
  by (simp add: example_action_def spec_timing_days_def spec_category_def)

section \<open>Properties of the recommendation engine\<close>

subsection \<open>Yield impact\<close>

lemma spec_contribution_nonneg: "0 \<le> spec_contribution a"
  by (simp add: spec_contribution_def split: RecommendationType.splits)

lemma yield_impact_loop_sum:
  "yield_impact_loop actions acc = acc + sum_list (map spec_contribution actions)"
proof (induction actions arbitrary: acc)
  case Nil
  show ?case by simp
next
  case (Cons a actions)
  show ?case
    by (cases "ra_action_type a") (simp_all add: Cons.IH spec_contribution_def)
qed

lemma sum_contributions_nonneg: "0 \<le> sum_list (map spec_contribution actions)"
  by (induction actions) (simp_all add: spec_contribution_nonneg)

text \<open>
  Claim C7: for every list of actions and every zone, the estimated yield impact is
  the sum of the contributions of the actions, capped at 0.40, and lies between 0 and
  0.40.
\<close>

theorem estimate_yield_impact_capped:
  "estimate_yield_impact actions zone_data = min (sum_list (map spec_contribution actions)) 0.40
   \<and> 0 \<le> estimate_yield_impact actions zone_data
   \<and> estimate_yield_impact actions zone_data \<le> 0.40"
  using sum_contributions_nonneg[of actions]
  by (simp add: estimate_yield_impact_def yield_impact_loop_sum)

subsection \<open>Return on investment\<close>

text \<open>
  Claim C6: for a non-empty list of zone recommendations and a positive total cost,
  the expected ROI is the maximum of 0 and
  ((total area * 25 * 300 * mean yield impact) - total cost) / total cost * 100;
  whatever the arguments, a returned ROI is not negative; and with total cost 0 the ROI
  is 0.
\<close>

theorem estimate_roi_floor:
  "(zones \<noteq> [] \<and> total_cost > 0 \<longrightarrow>
      estimate_roi zones total_cost
        = Some (max 0 (((sum_list (map zr_area_ha zones) * 25 * 300
                          * (sum_list (map estimated_yield_impact zones) / real (length zones)))
                        - total_cost) / total_cost * 100)))
   \<and> (\<forall>r. estimate_roi zones total_cost = Some r \<longrightarrow> 0 \<le> r)
   \<and> estimate_roi zones 0 = Some 0"
  by (auto simp: estimate_roi_def np_mean_def Let_def max.commute split: if_splits)

theorem estimate_roi_floor_witness:
  "[\<lparr> zr_zone_id = 1, zr_area_ha = 2, zr_growth_stage = ''Vegetative_Growth'',
      zr_health_status = ''good'', zr_nutrient_status = [], zr_stress_indicators = Map.empty,
      zr_actions = [], estimated_yield_impact = 1 / 10, zr_total_cost = 1000 \<rparr>] \<noteq> []
   \<and> (0::real) < 1000
   \<and> estimate_roi
        [\<lparr> zr_zone_id = 1, zr_area_ha = 2, zr_growth_stage = ''Vegetative_Growth'',
           zr_health_status = ''good'', zr_nutrient_status = [], zr_stress_indicators = Map.empty,
           zr_actions = [], estimated_yield_impact = 1 / 10, zr_total_cost = 1000 \<rparr>] 1000
      = Some 50"
  using estimate_roi_floor [of
      "[\<lparr> zr_zone_id = 1, zr_area_ha = 2, zr_growth_stage = ''Vegetative_Growth'',
          zr_health_status = ''good'', zr_nutrient_status = [], zr_stress_indicators = Map.empty,
          zr_actions = [], estimated_yield_impact = 1 / 10, zr_total_cost = 1000 \<rparr>]" 1000]
  by simp

subsection \<open>Nutrient status\<close>

lemma status_of_level_mono:
  assumes "severe_deficiency th \<le> deficiency th" and "deficiency th \<le> sufficient th"
    and "sufficient th \<le> excess th" and "l1 \<le> l2"
  shows "status_rank (status_of_level th l1) \<le> status_rank (status_of_level th l2)"
  using assms by (simp add: status_of_level_def status_rank_def)

lemma status_of_level_buckets:
  assumes "severe_deficiency th \<le> deficiency th" and "deficiency th \<le> sufficient th"
    and "sufficient th \<le> excess th"
  shows "(status_of_level th l = ''severe_deficiency'') = (l < severe_deficiency th)"
    and "(status_of_level th l = ''deficiency'') = (severe_deficiency th \<le> l \<and> l < deficiency th)"
    and "(status_of_level th l = ''marginal'') = (deficiency th \<le> l \<and> l < sufficient th)"
    and "(status_of_level th l = ''sufficient'') = (sufficient th \<le> l \<and> l \<le> excess th)"
    and "(status_of_level th l = ''excess'') = (excess th < l)"
  using assms by (auto simp: status_of_level_def)

text \<open>
  Claim C8: for each of nitrogen, phosphorus and potassium the thresholds are strictly
  ascending, and \<open>_assess_nutrient_status\<close> assigns the nutrient exactly one status:
  the one of its level (50 when the level is absent) in the ordered buckets
  level < severe_deficiency; severe_deficiency <= level < deficiency;
  deficiency <= level < sufficient; sufficient <= level <= excess; excess < level.
  The status is monotone in the level.
\<close>

theorem assess_nutrient_status_buckets:
  assumes "nutrient \<in> {''nitrogen'', ''phosphorus'', ''potassium''}"
  shows "\<exists>th r. nutrient_thresholds nutrient = Some th
           \<and> severe_deficiency th < deficiency th \<and> deficiency th < sufficient th
           \<and> sufficient th < excess th
           \<and> assess_nutrient_status zone_data = Inr r
           \<and> map fst r = [''nitrogen'', ''phosphorus'', ''potassium'']
           \<and> map_of r nutrient = Some (status_of_level th (zone_level zone_data nutrient))
           \<and> zone_level zone_data ''nitrogen'' = dict_get (nitrogen_level zone_data) 50
           \<and> zone_level zone_data ''phosphorus'' = dict_get (phosphorus_level zone_data) 50
           \<and> zone_level zone_data ''potassium'' = dict_get (potassium_level zone_data) 50
           \<and> (\<forall>l. (status_of_level th l = ''severe_deficiency'') = (l < severe_deficiency th)
                 \<and> (status_of_level th l = ''deficiency'')
                      = (severe_deficiency th \<le> l \<and> l < deficiency th)
                 \<and> (status_of_level th l = ''marginal'') = (deficiency th \<le> l \<and> l < sufficient th)
                 \<and> (status_of_level th l = ''sufficient'') = (sufficient th \<le> l \<and> l \<le> excess th)
                 \<and> (status_of_level th l = ''excess'') = (excess th < l))
           \<and> (\<forall>l1 l2. l1 \<le> l2 \<longrightarrow>
                 status_rank (status_of_level th l1) \<le> status_rank (status_of_level th l2))"
proof -
  obtain th where th: "nutrient_thresholds nutrient = Some th"
    "severe_deficiency th < deficiency th" "deficiency th < sufficient th" "sufficient th < excess th"
    using assms by (auto simp: nutrient_thresholds_def)
  have r: "assess_nutrient_status zone_data =
             Inr [(''nitrogen'', status_of_level (the (nutrient_thresholds ''nitrogen''))
                     (zone_level zone_data ''nitrogen'')),
                  (''phosphorus'', status_of_level (the (nutrient_thresholds ''phosphorus''))
                     (zone_level zone_data ''phosphorus'')),
                  (''potassium'', status_of_level (the (nutrient_thresholds ''potassium''))
                     (zone_level zone_data ''potassium''))]"
    by (simp add: assess_nutrient_status_def nutrient_thresholds_def)
  have look: "map_of [(''nitrogen'', status_of_level (the (nutrient_thresholds ''nitrogen''))
                     (zone_level zone_data ''nitrogen'')),
                  (''phosphorus'', status_of_level (the (nutrient_thresholds ''phosphorus''))
                     (zone_level zone_data ''phosphorus'')),
                  (''potassium'', status_of_level (the (nutrient_thresholds ''potassium''))
                     (zone_level zone_data ''potassium''))] nutrient
              = Some (status_of_level th (zone_level zone_data nutrient))"
    using assms th(1) by auto
  have lv: "zone_level zone_data ''nitrogen'' = dict_get (nitrogen_level zone_data) 50"
    "zone_level zone_data ''phosphorus'' = dict_get (phosphorus_level zone_data) 50"
    "zone_level zone_data ''potassium'' = dict_get (potassium_level zone_data) 50"
    by (simp_all add: zone_level_def)
  have le: "severe_deficiency th \<le> deficiency th" "deficiency th \<le> sufficient th"
    "sufficient th \<le> excess th"
    using th by simp_all
  show ?thesis
    apply (rule exI[of _ th])
    apply (rule exI)
    apply (intro conjI allI impI)
                    apply (rule th(1))
                   apply (rule th(2))
                  apply (rule th(3))
                 apply (rule th(4))
                apply (rule r)
               apply simp
              apply (rule look)
             apply (rule lv(1))
            apply (rule lv(2))
           apply (rule lv(3))
          apply (rule status_of_level_buckets(1)[OF le])
         apply (rule status_of_level_buckets(2)[OF le])
        apply (rule status_of_level_buckets(3)[OF le])
       apply (rule status_of_level_buckets(4)[OF le])
      apply (rule status_of_level_buckets(5)[OF le])
     apply (erule status_of_level_mono[OF le])
    done
qed

theorem assess_nutrient_status_buckets_witness:
  "''nitrogen'' \<in> {''nitrogen'', ''phosphorus'', ''potassium''}
   \<and> assess_nutrient_status example_zone
       = Inr [(''nitrogen'', ''severe_deficiency''), (''phosphorus'', ''excess''),
              (''potassium'', ''severe_deficiency'')]"
  using assess_nutrient_status_buckets [of "''nitrogen''" example_zone]
  by (simp add: assess_nutrient_status_def nutrient_thresholds_def status_of_level_def
        zone_level_def dict_get_def example_zone_def)

subsection \<open>Irrigation\<close>

text \<open>
  Claim C4, as stated, fails: for a zone in Vegetative_Growth with soil moisture 10 and
  a forecast of 0 mm in 7 days, the water stress is (25 - 10) / 25 * (20 - 0) / 20 = 0.6,
  not 1.0; the one irrigation action has priority medium, not high; and its rate is
  41.3 mm, not 45.5.
\<close>

theorem irrigation_example_counterexample:
  "\<not> isl (zone_irrigation_actions (\<lambda>x. []) example_zone example_forecast)
   \<and> fst (projr (zone_irrigation_actions (\<lambda>x. []) example_zone example_forecast)) ''water_stress''
       = Some (6 / 10)
   \<and> map ra_priority (snd (projr (zone_irrigation_actions (\<lambda>x. []) example_zone example_forecast)))
       = [''medium'']
   \<and> map application_rate
        (snd (projr (zone_irrigation_actions (\<lambda>x. []) example_zone example_forecast)))
       = [Some (413 / 10)]
   \<and> zm_growth_stage example_zone = Some ''Vegetative_Growth''
   \<and> soil_moisture example_zone = Some 10
   \<and> precipitation_7day example_forecast = Some 0"
  by (simp add: zone_irrigation_actions_def calculate_stress_indicators_def
        generate_irrigation_recommendations_def GrowthStage_of_value_def
        nutrient_thresholds_def dict_get_def Let_def example_zone_def example_forecast_def)

text \<open>
  Claim C4, amended: for every zone with growth stage "Vegetative_Growth" and soil
  moisture 10, and every forecast with precipitation_7day 0, the water stress is 0.6,
  which does not exceed the threshold 0.7; exactly one irrigation action is emitted,
  with priority "medium" and timing "within_week"; its rate is
  35 * (1 + 0.6 * 0.3) - 0 = 41.3 mm.
\<close>

theorem irrigation_vegetative_dry:
  assumes "zm_growth_stage zone_data = Some ''Vegetative_Growth''"
    and "soil_moisture zone_data = Some 10"
    and "precipitation_7day forecast = Some 0"
  shows "\<exists>stress a. zone_irrigation_actions fmt zone_data forecast = Inr (stress, [a])
           \<and> stress ''water_stress'' = Some (6 / 10)
           \<and> \<not> (6 / 10 > (7 / 10 :: real))
           \<and> ra_action_type a = RT_IRRIGATION
           \<and> ra_priority a = ''medium''
           \<and> ra_timing a = ''within_week''
           \<and> application_rate a = Some (413 / 10)
           \<and> (413 / 10 :: real) = 35 * (1 + 6 / 10 * (3 / 10)) - 0"
  using assms
  by (simp add: zone_irrigation_actions_def calculate_stress_indicators_def
        generate_irrigation_recommendations_def GrowthStage_of_value_def
        nutrient_thresholds_def dict_get_def Let_def)

theorem irrigation_vegetative_dry_witness:
  "zm_growth_stage example_zone = Some ''Vegetative_Growth''
   \<and> soil_moisture example_zone = Some 10
   \<and> precipitation_7day example_forecast = Some 0
   \<and> map ra_priority (snd (projr (zone_irrigation_actions (\<lambda>x. []) example_zone example_forecast)))
       = [''medium'']"
proof -
  have h: "zm_growth_stage example_zone = Some ''Vegetative_Growth''"
    "soil_moisture example_zone = Some 10" "precipitation_7day example_forecast = Some 0"
    by (simp_all add: example_zone_def example_forecast_def)
  from irrigation_vegetative_dry [OF h, of "\<lambda>x. []"]
  obtain stress a where "zone_irrigation_actions (\<lambda>x. []) example_zone example_forecast = Inr (stress, [a])"
    and "ra_priority a = ''medium''"
    by blast
  then show ?thesis using h by simp
qed

section \<open>Properties of the alert system\<close>

text \<open>
  Claim C1 against the code: a pending task whose due date has passed gets an overdue
  alert in every scan. The first scan dispatches the alert and logs it in
  \<open>sent_alerts\<close>; the second scan, with that row in the log and the task table
  unchanged, dispatches it again, because the overdue branch tests the status of the
  fetched task (never OVERDUE among the fetched pending and in-progress tasks) and does
  not query the log. When both scans log within the same wall-clock second, the second
  dispatch is made all the same and only its logging fails.
\<close>

theorem overdue_alert_sent_twice:
  "snd (check_and_send_alerts example_config example_clock [''field_001''] 200 example_db no_alerts)
     = \<lparr> sent_alerts = [(1000, ''t1'', Alert_overdue)], dispatched = [(''t1'', Alert_overdue)] \<rparr>
   \<and> snd (check_and_send_alerts example_config example_clock [''field_001''] 300 example_db
            (snd (check_and_send_alerts example_config example_clock [''field_001''] 200
                    example_db no_alerts)))
     = \<lparr> sent_alerts = [(1000, ''t1'', Alert_overdue), (1001, ''t1'', Alert_overdue)],
         dispatched = [(''t1'', Alert_overdue), (''t1'', Alert_overdue)] \<rparr>
   \<and> check_and_send_alerts example_config (\<lambda>k. 1000) [''field_001''] 300 example_db
        (snd (check_and_send_alerts example_config (\<lambda>k. 1000) [''field_001''] 200
                example_db no_alerts))
     = (Inl IntegrityError,
        \<lparr> sent_alerts = [(1000, ''t1'', Alert_overdue)],
          dispatched = [(''t1'', Alert_overdue), (''t1'', Alert_overdue)] \<rparr>)
   \<and> status example_task = PENDING \<and> due_date example_task < 200"
  by (simp add: check_and_send_alerts_def alert_task_def alert_task_first_def send_alert_def
        log_alert_sent_def get_tasks_for_farmer_def in_filter_def example_task_def
        example_db_def example_config_def example_clock_def no_alerts_def Let_def)

end
